theory Spec2Isabelle
  imports Main "HOL-Library.Sublist"
begin

section \<open>The tree model\<close>

text \<open>
  The analysis works on the generic tree type of \<^verbatim>\<open>finder.go\<close>:
  \<^verbatim>\<open>type Ast struct { Label string; Pos int; End int; Attrs map[string]string; Children []*Ast }\<close>.
  A node is a value of the datatype below; the attribute dictionary is a map, and a key
  that is absent reads as the empty string, as a Go map of strings does.
  \<open>Pos\<close> and \<open>End\<close> are carried along; no analysis function reads them.
\<close>

datatype Ast =
  Ast (Label: string) (Pos: int) (End: int) (Attrs: "string \<rightharpoonup> string") (Children: "Ast list")

text \<open>\<^verbatim>\<open>strings.Contains(s, substr)\<close>: \<open>substr\<close> occurs in \<open>s\<close> as a contiguous block.\<close>

fun hasPrefix :: "string \<Rightarrow> string \<Rightarrow> bool" where
  "hasPrefix s [] = True"
| "hasPrefix [] (c # cs) = False"
| "hasPrefix (x # xs) (c # cs) = (x = c \<and> hasPrefix xs cs)"

fun Contains :: "string \<Rightarrow> string \<Rightarrow> bool" where
  "Contains [] substr = hasPrefix [] substr"
| "Contains (x # xs) substr = (hasPrefix (x # xs) substr \<or> Contains xs substr)"

text \<open>\<^verbatim>\<open>ast.Attrs[k]\<close>, with Go's zero value for a missing key.\<close>

definition attr :: "Ast \<Rightarrow> string \<Rightarrow> string" where
  "attr a k = (case Attrs a k of None \<Rightarrow> [] | Some v \<Rightarrow> v)"

text \<open>
  \<^verbatim>\<open>ast.Children[i]\<close>. An index outside the slice is a run-time panic in Go; in the model
  it is \<open>None\<close>, and every function that indexes returns an option, \<open>None\<close> standing for the
  panic of the whole call.
\<close>

definition child :: "Ast \<Rightarrow> nat \<Rightarrow> Ast option" where
  "child a i = (if i < length (Children a) then Some (Children a ! i) else None)"

text \<open>\<^verbatim>\<open>ast.Children[len(ast.Children)-k]\<close> for \<open>k\<close> from 1.\<close>

definition childFromEnd :: "Ast \<Rightarrow> nat \<Rightarrow> Ast option" where
  "childFromEnd a k =
     (if k \<le> length (Children a) then Some (Children a ! (length (Children a) - k)) else None)"

definition isBasicLabel :: "Ast \<Rightarrow> bool" where
  "isBasicLabel a =
     (if Contains (Label a) ''Fun'' then False
      else if Contains (Label a) ''Key'' then False
      else if Contains (Label a) ''Type'' then False
      else if Contains (Label a) ''*ast.Ident'' then True
      else if Contains (Label a) ''*ast.SelectorExpr'' then True
      else False)"

section \<open>Structural equivalence and deduplication\<close>

text \<open>
  \<open>astNodeEqual\<close> with its loop over the children, which leaves at the first pair that differs.
  The loop runs only when both child lists have the same length.
\<close>

fun astNodeEqual :: "Ast \<Rightarrow> Ast \<Rightarrow> bool"
  and astNodeEqualLoop :: "Ast list \<Rightarrow> Ast list \<Rightarrow> bool" where
  "astNodeEqual (Ast l1 p1 e1 a1 cs1) (Ast l2 p2 e2 a2 cs2) =
     (if Contains l1 ''Name'' \<and> Contains l2 ''Name''
      then (case a1 ''Name'' of None \<Rightarrow> [] | Some v \<Rightarrow> v)
         = (case a2 ''Name'' of None \<Rightarrow> [] | Some v \<Rightarrow> v)
      else if length cs1 = length cs2 then astNodeEqualLoop cs1 cs2
      else False)"
| "astNodeEqualLoop [] ys = True"
| "astNodeEqualLoop (x # xs) [] = True"
| "astNodeEqualLoop (x # xs) (y # ys) =
     (if \<not> astNodeEqual x y then False else astNodeEqualLoop xs ys)"

text \<open>
  Label lists are \<^verbatim>\<open>container/list\<close> lists. \<^verbatim>\<open>l.Remove(e)\<close> unlinks \<open>e\<close> and clears its
  \<^verbatim>\<open>next\<close>, \<^verbatim>\<open>prev\<close> and \<^verbatim>\<open>list\<close> fields, so the \<^verbatim>\<open>e.Next()\<close> evaluated afterwards by
  the \<^verbatim>\<open>for\<close> header is \<^verbatim>\<open>nil\<close>: a loop of the shape
  \<^verbatim>\<open>for e := l.Front(); e != nil; e = e.Next() { if p(e) { l.Remove(e) } }\<close>
  removes the first element that satisfies \<open>p\<close> and stops. \<open>removeFirst\<close> is that loop.
\<close>

fun removeFirst :: "(Ast \<Rightarrow> bool) \<Rightarrow> Ast list \<Rightarrow> Ast list" where
  "removeFirst p [] = []"
| "removeFirst p (y # ys) = (if p y then ys else y # removeFirst p ys)"

text \<open>
  \<open>trimList\<close>: for each element \<open>x\<close> from the front, the inner loop starts at \<open>x.Next()\<close> and
  removes elements equal to \<open>x\<close>; by the above it ends after its first removal.
\<close>

lemma length_removeFirst: "length (removeFirst p ys) \<le> length ys"
  by (induction ys) auto

function trimList :: "Ast list \<Rightarrow> Ast list" where
  "trimList [] = []"
| "trimList (x # rest) = x # trimList (removeFirst (\<lambda>y. astNodeEqual x y) rest)"
  by pat_completeness auto
termination
  by (relation "measure length") (auto simp: less_Suc_eq_le length_removeFirst)

section \<open>Label collection\<close>

fun addLabelsInConditionStatement :: "Ast \<Rightarrow> Ast list" where
  "addLabelsInConditionStatement (Ast l p e a cs) =
     concat (map (\<lambda>c. if isBasicLabel c then [c] else addLabelsInConditionStatement c) cs)"

fun addLabelsInLeftValue :: "Ast \<Rightarrow> Ast list" where
  "addLabelsInLeftValue (Ast l p e a cs) =
     concat (map (\<lambda>c. if isBasicLabel c then [c] else addLabelsInLeftValue c) cs)"

definition checkLabelsInAssignStatementLeftHandedSide :: "Ast \<Rightarrow> Ast list \<Rightarrow> bool" where
  "checkLabelsInAssignStatementLeftHandedSide a labels =
     list_ex (\<lambda>c. list_ex (\<lambda>e. astNodeEqual c e) labels) (Children a)"

text \<open>
  The two inner loops of the right-hand-side check: the node equals one of the function's
  arguments or one of the labels.
\<close>

definition matchesLocal :: "Ast \<Rightarrow> Ast list \<Rightarrow> Ast list \<Rightarrow> bool" where
  "matchesLocal n functionArguments labels =
     (list_ex (\<lambda>y. astNodeEqual n y) functionArguments \<or> list_ex (\<lambda>e. astNodeEqual n e) labels)"

text \<open>
  The loop of \<open>checkLabelsInAssignStatementRightHandedSide\<close> over the children of the
  right-hand side. A literal returns \<open>false\<close> at once; an identifier that matches returns
  \<open>false\<close>, one that does not goes on to the next child; a call expression looks at
  \<^verbatim>\<open>Children[1].Children\<close> and returns inside the first round of the loop over them
  (\<open>false\<close> when that node matches, \<open>true\<close> otherwise), and goes on to the next child when
  there is none; the function returns \<open>true\<close> when the loop runs out.
\<close>

fun checkRightLoop :: "Ast list \<Rightarrow> Ast list \<Rightarrow> Ast list \<Rightarrow> bool option" where
  "checkRightLoop [] functionArguments labels = Some True"
| "checkRightLoop (c # cs) functionArguments labels =
     (if Contains (Label c) ''BasicLit'' then Some False
      else if Contains (Label c) ''*ast.Ident'' then
        (if matchesLocal c functionArguments labels then Some False
         else checkRightLoop cs functionArguments labels)
      else if Contains (Label c) ''CallExpr'' then
        (case child c 1 of
           None \<Rightarrow> None
         | Some al \<Rightarrow>
            (case Children al of
               [] \<Rightarrow> checkRightLoop cs functionArguments labels
             | z # zs \<Rightarrow> if matchesLocal z functionArguments labels then Some False else Some True))
      else checkRightLoop cs functionArguments labels)"

definition checkLabelsInAssignStatementRightHandedSide ::
    "Ast \<Rightarrow> Ast list \<Rightarrow> Ast list \<Rightarrow> bool option" where
  "checkLabelsInAssignStatementRightHandedSide a functionArguments labels =
     checkRightLoop (Children a) functionArguments labels"

lemma size_Children: "c \<in> set (Children a) \<Longrightarrow> size c < size a"
  by (cases a) (auto simp: less_Suc_eq_le dest: size_list_estimation')

lemma size_child: "child a i = Some c \<Longrightarrow> size c < size a"
  by (auto simp: child_def size_Children split: if_splits)

function findLabelsInHalfStatements :: "Ast \<Rightarrow> Ast list option" where
  "findLabelsInHalfStatements a =
     map_option concat (those (map (\<lambda>c.
        if Contains (Label c) ''CallExpr'' then
          (case child c 1 of None \<Rightarrow> None | Some al \<Rightarrow> findLabelsInHalfStatements al)
        else if isBasicLabel c then Some [c]
        else findLabelsInHalfStatements c) (Children a)))"
  by pat_completeness auto
termination
proof (relation "measure size", goal_cases)
  case 1
  show ?case by simp
next
  case (2 a c al)
  then show ?case using size_Children[of c a] size_child[of c 1 al] by simp
next
  case (3 a c)
  then show ?case using size_Children[of c a] by simp
qed

section \<open>Phase 1: candidate statements and their chains\<close>

text \<open>
  The loop over the left-hand targets \<open>z\<close> that the backward walks share: for each target the
  inner loop over the working labels removes the first label the target equals (and ends
  there, see \<open>removeFirst\<close>) and raises the flag.
\<close>

fun removeMatched :: "Ast list \<Rightarrow> Ast list \<Rightarrow> Ast list \<times> bool" where
  "removeMatched [] tempLabels = (tempLabels, False)"
| "removeMatched (z # zs) tempLabels =
     (if list_ex (\<lambda>e. astNodeEqual z e) tempLabels
      then (fst (removeMatched zs (removeFirst (\<lambda>e. astNodeEqual z e) tempLabels)), True)
      else removeMatched zs tempLabels)"

text \<open>
  Step 2 of \<open>expendKernels\<close>: the statements ahead of the kernel, nearest first, with the
  working labels; the result is what the walk appends to \<open>pos\<close>.
\<close>

fun expendBackward :: "Ast list \<Rightarrow> Ast list \<Rightarrow> Ast list option" where
  "expendBackward [] tempLabels = Some []"
| "expendBackward (s # earlier) tempLabels =
     (if length tempLabels \<noteq> 0 then
        (if Contains (Label s) ''AssignStmt'' then
           (case child s 0 of
              None \<Rightarrow> None
            | Some lhs \<Rightarrow>
               (if snd (removeMatched (Children lhs) tempLabels) then
                  (case child s 1 of
                     None \<Rightarrow> None
                   | Some rhs \<Rightarrow>
                      (case findLabelsInHalfStatements rhs of
                         None \<Rightarrow> None
                       | Some new \<Rightarrow>
                          map_option ((#) s)
                            (expendBackward earlier
                               (trimList (fst (removeMatched (Children lhs) tempLabels) @ new)))))
                else expendBackward earlier (fst (removeMatched (Children lhs) tempLabels))))
         else expendBackward earlier tempLabels)
      else Some [])"

text \<open>
  Step 1 of \<open>expendKernels\<close>: the largest index whose statement equals the kernel. When
  there is none the Go loop leaves \<open>x = -1\<close> and the indexing that follows panics.
\<close>

fun findLast :: "Ast list \<Rightarrow> Ast \<Rightarrow> nat option" where
  "findLast [] k = None"
| "findLast (s # ss) k =
     (case findLast ss k of
        Some i \<Rightarrow> Some (Suc i)
      | None \<Rightarrow> if astNodeEqual s k then Some 0 else None)"

definition expendKernel :: "Ast \<Rightarrow> Ast \<Rightarrow> Ast list option" where
  "expendKernel a k =
     (case findLast (Children a) k of
        None \<Rightarrow> None
      | Some x \<Rightarrow>
         (case child (Children a ! x) 1 of
            None \<Rightarrow> None
          | Some rhs \<Rightarrow>
             (case findLabelsInHalfStatements rhs of
                None \<Rightarrow> None
              | Some seed \<Rightarrow>
                 map_option ((#) (Children a ! x))
                   (expendBackward (rev (take x (Children a))) (trimList seed)))))"

definition expendKernels :: "Ast \<Rightarrow> Ast list \<Rightarrow> Ast list option" where
  "expendKernels a kernels = map_option concat (those (map (expendKernel a) kernels))"

text \<open>
  The scan of one statement list in \<open>findExchangeableSentences\<close>. The loop carries the two
  label lists and the result; \<open>scanStep\<close> is one round of it.
\<close>

record scan_state =
  labelsInCondition :: "Ast list"
  labelsInLeftHandedSide :: "Ast list"
  pos :: "Ast list"

definition scanStep :: "Ast list \<Rightarrow> Ast \<Rightarrow> scan_state \<Rightarrow> scan_state option" where
  "scanStep functionArguments s st =
     (if Contains (Label s) ''IfStmt'' then
        Some (st\<lparr>labelsInCondition := labelsInCondition st @ addLabelsInConditionStatement s\<rparr>)
      else if Contains (Label s) ''IncDecStmt'' then
        (case labelsInCondition st of
           [] \<Rightarrow> Some (st\<lparr>pos := pos st @ [s]\<rparr>)
         | e # es \<Rightarrow>
            (case child s 0 of
               None \<Rightarrow> None
             | Some t \<Rightarrow>
                if list_ex (\<lambda>e. astNodeEqual t e) (labelsInCondition st) then Some st
                else Some (st\<lparr>pos := pos st @ [s]\<rparr>)))
      else if Contains (Label s) ''AssignStmt'' then
        (if attr s ''Tok'' = '':='' then
           (case child s 0 of
              None \<Rightarrow> None
            | Some lhs \<Rightarrow>
               Some (st\<lparr>labelsInLeftHandedSide :=
                          labelsInLeftHandedSide st @ addLabelsInLeftValue lhs\<rparr>))
         else
           (case child s 0 of
              None \<Rightarrow> None
            | Some lhs \<Rightarrow>
               if checkLabelsInAssignStatementLeftHandedSide lhs (labelsInCondition st) then Some st
               else
                 (case child s 1 of
                    None \<Rightarrow> None
                  | Some rhs \<Rightarrow>
                     (case checkLabelsInAssignStatementRightHandedSide rhs functionArguments
                             (labelsInLeftHandedSide st) of
                        None \<Rightarrow> None
                      | Some r \<Rightarrow> if \<not> r then Some (st\<lparr>pos := pos st @ [s]\<rparr>) else Some st))))
      else Some st)"

fun scanLoop :: "Ast list \<Rightarrow> Ast list \<Rightarrow> scan_state \<Rightarrow> scan_state option" where
  "scanLoop functionArguments [] st = Some st"
| "scanLoop functionArguments (s # ss) st =
     (case scanStep functionArguments s st of
        None \<Rightarrow> None
      | Some st' \<Rightarrow> scanLoop functionArguments ss st')"

definition scanStart :: scan_state where
  "scanStart = \<lparr>labelsInCondition = [], labelsInLeftHandedSide = [], pos = []\<rparr>"

fun findExchangeableSentences :: "Ast \<Rightarrow> Ast list \<Rightarrow> Ast list option" where
  "findExchangeableSentences (Ast l p e a cs) functionArguments =
     (if Contains l ''List : []ast.Stmt''
      then map_option pos (scanLoop functionArguments cs scanStart)
      else map_option concat
             (those (map (\<lambda>c. findExchangeableSentences c functionArguments) cs)))"

text \<open>
  Step 1 of \<open>analyzeFunctionDeclaration\<close>: for every child \<open>x\<close> of
  \<^verbatim>\<open>Children[2].Children[0].Children[0]\<close>, the node \<^verbatim>\<open>x.Children[0].Children[0]\<close>.
\<close>

definition argumentOfField :: "Ast \<Rightarrow> Ast option" where
  "argumentOfField f = (case child f 0 of None \<Rightarrow> None | Some n \<Rightarrow> child n 0)"

definition declArguments :: "Ast \<Rightarrow> Ast list option" where
  "declArguments a =
     (case child a 2 of
        None \<Rightarrow> None
      | Some t \<Rightarrow>
         (case child t 0 of
            None \<Rightarrow> None
          | Some ps \<Rightarrow>
             (case child ps 0 of
                None \<Rightarrow> None
              | Some l \<Rightarrow> those (map argumentOfField (Children l)))))"

text \<open>The list handed to \<open>expendKernels\<close>: \<^verbatim>\<open>ast.Children[3].Children[0]\<close>.\<close>

definition declBody :: "Ast \<Rightarrow> Ast option" where
  "declBody a = (case child a 3 of None \<Rightarrow> None | Some b \<Rightarrow> child b 0)"

definition analyzeDecl :: "Ast \<Rightarrow> Ast list list option" where
  "analyzeDecl a =
     (case declArguments a of
        None \<Rightarrow> None
      | Some arguments \<Rightarrow>
         (case findExchangeableSentences a arguments of
            None \<Rightarrow> None
          | Some kernels \<Rightarrow>
             if length kernels \<noteq> 0 then
               (case declBody a of
                  None \<Rightarrow> None
                | Some b \<Rightarrow> map_option (\<lambda>chain. [chain]) (expendKernels b kernels))
             else Some []))"

text \<open>
  The result is the list of the per-function slices: a function declaration contributes one
  element (the chains of all its kernels, one after the other) or none.
\<close>

fun analyzeFunctionDeclaration :: "Ast \<Rightarrow> Ast list list option" where
  "analyzeFunctionDeclaration (Ast l p e a cs) =
     (if Contains l ''FuncDecl'' then analyzeDecl (Ast l p e a cs)
      else map_option concat (those (map analyzeFunctionDeclaration cs)))"

section \<open>Phase 2: parameter positions that reach the ledger API\<close>

text \<open>
  The position maps are Go maps from function name to \<^verbatim>\<open>[]int\<close>. A name that is absent
  reads as the \<^verbatim>\<open>nil\<close> slice: \<open>None\<close> here. Every stored value is a slice built by
  \<^verbatim>\<open>append\<close> from \<^verbatim>\<open>[]int{}\<close>, which is not \<^verbatim>\<open>nil\<close>: \<open>Some\<close> of its elements. Positions are
  indices of \<^verbatim>\<open>range\<close> loops and the constant 0, so they are natural numbers. Slices are
  taken as values: \<^verbatim>\<open>append\<close> on a slice read from the map writes into its spare capacity
  only when the stored slice has three or more elements.
\<close>

type_synonym position_map = "string \<rightharpoonup> nat list"

text \<open>The test at the head of \<open>findGetOrPutStateExpression\<close>, on the node itself.\<close>

definition callPositions :: "Ast \<Rightarrow> position_map \<Rightarrow> bool \<Rightarrow> nat list option" where
  "callPositions a GetStateMap isGet =
     (if Contains (Label a) ''CallExpr'' then
        (case child a 0 of
           None \<Rightarrow> None
         | Some fn \<Rightarrow>
            if Contains (Label fn) ''SelectorExpr'' then
              (case child fn 1 of
                 None \<Rightarrow> None
               | Some sel \<Rightarrow>
                  if isGet then (if attr sel ''Name'' = ''GetState'' then Some [0] else Some [])
                  else (if attr sel ''Name'' = ''PutState'' then Some [0] else Some []))
            else Some (case GetStateMap (attr fn ''Name'') of None \<Rightarrow> [] | Some ps \<Rightarrow> ps))
      else Some [])"

fun findGetOrPutStateExpression :: "Ast \<Rightarrow> position_map \<Rightarrow> bool \<Rightarrow> nat list option" where
  "findGetOrPutStateExpression (Ast l p e a cs) GetStateMap isGet =
     (case callPositions (Ast l p e a cs) GetStateMap isGet of
        None \<Rightarrow> None
      | Some own \<Rightarrow>
         map_option (\<lambda>rs. own @ concat rs)
           (those (map (\<lambda>c. findGetOrPutStateExpression c GetStateMap isGet) cs)))"

text \<open>
  The node pushed for a position \<open>y\<close> found in statement \<open>s\<close>:
  \<^verbatim>\<open>s.Children[len(s.Children)-1].Children[0].Children[1].Children[y]\<close>.
\<close>

definition trackedArgument :: "Ast \<Rightarrow> nat \<Rightarrow> Ast option" where
  "trackedArgument s y =
     (case childFromEnd s 1 of
        None \<Rightarrow> None
      | Some r \<Rightarrow>
         (case child r 0 of
            None \<Rightarrow> None
          | Some c \<Rightarrow> (case child c 1 of None \<Rightarrow> None | Some al \<Rightarrow> child al y)))"

text \<open>
  The first loop of \<open>findGetOrPutStateList\<close>, over the statements from the last to the
  first (the list is given nearest the end first), carrying the working labels.
\<close>

fun stateBackward :: "Ast list \<Rightarrow> position_map \<Rightarrow> bool \<Rightarrow> Ast list \<Rightarrow> Ast list option" where
  "stateBackward [] GetStateMap isGet tempLabels = Some tempLabels"
| "stateBackward (s # earlier) GetStateMap isGet tempLabels =
     (case findGetOrPutStateExpression s GetStateMap isGet of
        None \<Rightarrow> None
      | Some argumentsPosition \<Rightarrow>
         if length argumentsPosition \<noteq> 0 then
           (case those (map (trackedArgument s) argumentsPosition) of
              None \<Rightarrow> None
            | Some tracked \<Rightarrow>
               stateBackward earlier GetStateMap isGet (trimList (tempLabels @ tracked)))
         else if Contains (Label s) ''AssignStmt'' then
           (case child s 0 of
              None \<Rightarrow> None
            | Some lhs \<Rightarrow>
               (if snd (removeMatched (Children lhs) tempLabels) then
                  (case childFromEnd s 1 of
                     None \<Rightarrow> None
                   | Some rhs \<Rightarrow>
                      (case findLabelsInHalfStatements rhs of
                         None \<Rightarrow> None
                       | Some new \<Rightarrow>
                          stateBackward earlier GetStateMap isGet
                            (trimList (fst (removeMatched (Children lhs) tempLabels) @ new))))
                else stateBackward earlier GetStateMap isGet
                       (fst (removeMatched (Children lhs) tempLabels))))
         else stateBackward earlier GetStateMap isGet tempLabels)"

text \<open>
  The second loop: the first label whose kind is a selector or an index expression has its
  \<^verbatim>\<open>Children[0]\<close> pushed at the back and is removed; the removal ends the loop.
\<close>

fun reduceToBase :: "Ast list \<Rightarrow> Ast list option" where
  "reduceToBase [] = Some []"
| "reduceToBase (e # es) =
     (if Contains (Label e) ''SelectorExpr'' \<or> Contains (Label e) ''IndexExpr''
      then (case child e 0 of None \<Rightarrow> None | Some b \<Rightarrow> Some (es @ [b]))
      else map_option ((#) e) (reduceToBase es))"

text \<open>The third loop: position \<open>x\<close> once for every label that argument \<open>x\<close> equals.\<close>

fun matchPositions :: "nat \<Rightarrow> Ast list \<Rightarrow> Ast list \<Rightarrow> nat list" where
  "matchPositions x [] tempLabels = []"
| "matchPositions x (a # as) tempLabels =
     replicate (length (filter (\<lambda>e. astNodeEqual a e) tempLabels)) x
       @ matchPositions (Suc x) as tempLabels"

definition findGetOrPutStateList ::
    "Ast \<Rightarrow> position_map \<Rightarrow> Ast list \<Rightarrow> bool \<Rightarrow> nat list option" where
  "findGetOrPutStateList a GetStateMap arguments isGet =
     (case stateBackward (rev (Children a)) GetStateMap isGet [] of
        None \<Rightarrow> None
      | Some tempLabels \<Rightarrow>
         (case reduceToBase tempLabels of
            None \<Rightarrow> None
          | Some reduced \<Rightarrow> Some (matchPositions 0 arguments (trimList reduced))))"

text \<open>
  What \<open>analyzeReadWriteAPI\<close> reads from a function declaration \<open>d\<close>, by distance from the
  end of its children: the arguments under \<^verbatim>\<open>Children[len-2]\<close>, the name of
  \<^verbatim>\<open>Children[len-3]\<close>, the statement list \<^verbatim>\<open>Children[len-1].Children[0]\<close>.
\<close>

definition apiArguments :: "Ast \<Rightarrow> Ast list option" where
  "apiArguments d =
     (case childFromEnd d 2 of
        None \<Rightarrow> None
      | Some t \<Rightarrow>
         (case child t 0 of
            None \<Rightarrow> None
          | Some ps \<Rightarrow>
             (case child ps 0 of
                None \<Rightarrow> None
              | Some l \<Rightarrow> those (map argumentOfField (Children l)))))"

definition apiName :: "Ast \<Rightarrow> string option" where
  "apiName d = map_option (\<lambda>n. attr n ''Name'') (childFromEnd d 3)"

definition apiBody :: "Ast \<Rightarrow> Ast option" where
  "apiBody d = (case childFromEnd d 1 of None \<Rightarrow> None | Some b \<Rightarrow> child b 0)"

record api_state =
  GetStateMap :: position_map
  PutStateMap :: position_map
  flag :: bool

text \<open>
  One round of the inner loop. \<^verbatim>\<open>reflect.DeepEqual\<close> of the stored slice and the fresh
  one: a \<^verbatim>\<open>nil\<close> slice never equals a slice that is not \<^verbatim>\<open>nil\<close>, two others are equal when
  their elements are. The second search is handed \<open>GetStateMap\<close> again, as the source does.
\<close>

definition apiStep :: "Ast \<Rightarrow> api_state \<Rightarrow> api_state option" where
  "apiStep d st =
     (if Contains (Label d) ''FuncDecl'' then
        (case apiArguments d of
           None \<Rightarrow> None
         | Some arguments \<Rightarrow>
            (case apiName d of
               None \<Rightarrow> None
             | Some name \<Rightarrow>
                (case apiBody d of
                   None \<Rightarrow> None
                 | Some body \<Rightarrow>
                    (case findGetOrPutStateList body (GetStateMap st) arguments True of
                       None \<Rightarrow> None
                     | Some g \<Rightarrow>
                        (let st1 = (if GetStateMap st name \<noteq> Some g
                                    then st\<lparr>GetStateMap := (GetStateMap st)(name \<mapsto> g), flag := True\<rparr>
                                    else st)
                         in (case findGetOrPutStateList body (GetStateMap st1) arguments False of
                               None \<Rightarrow> None
                             | Some w \<Rightarrow>
                                Some (if PutStateMap st1 name \<noteq> Some w
                                      then st1\<lparr>PutStateMap := (PutStateMap st1)(name \<mapsto> w),
                                               flag := True\<rparr>
                                      else st1)))))))
      else Some st)"

fun apiSweep :: "Ast list \<Rightarrow> api_state \<Rightarrow> api_state option" where
  "apiSweep [] st = Some st"
| "apiSweep (d # ds) st = (case apiStep d st of None \<Rightarrow> None | Some st' \<Rightarrow> apiSweep ds st')"

text \<open>
  The outer loop \<^verbatim>\<open>for flag := true; flag; { ... }\<close> may run for ever, so it is given fuel:
  the number of sweeps it may make. The outer \<open>None\<close> says that the fuel ran out before
  the loop ended; \<open>Some None\<close> is a panic inside a sweep; \<open>Some (Some (g, w))\<close> is the pair
  of maps returned.
\<close>

fun analyzeSweeps ::
    "nat \<Rightarrow> Ast \<Rightarrow> position_map \<Rightarrow> position_map \<Rightarrow> (position_map \<times> position_map) option option" where
  "analyzeSweeps 0 a g w = None"
| "analyzeSweeps (Suc n) a g w =
     (case apiSweep (Children a) \<lparr>GetStateMap = g, PutStateMap = w, flag = False\<rparr> of
        None \<Rightarrow> Some None
      | Some st \<Rightarrow>
         if flag st then analyzeSweeps n a (GetStateMap st) (PutStateMap st)
         else Some (Some (GetStateMap st, PutStateMap st)))"

definition analyzeReadWriteAPI ::
    "nat \<Rightarrow> Ast \<Rightarrow> (position_map \<times> position_map) option option" where
  "analyzeReadWriteAPI n a = analyzeSweeps n a Map.empty Map.empty"

section \<open>The trees of the scenario programs\<close>

text \<open>
  \<open>BuildAst\<close> turns a value of \<^verbatim>\<open>go/ast\<close> into a node by reflection: the label is the field
  name or slice index, \<^verbatim>\<open>" : "\<close>, the Go type, and then \<^verbatim>\<open>(len = n)\<close> for a slice or the
  fields \<open>Name\<close>, \<open>Kind\<close>, \<open>Tok\<close>, \<open>Op\<close> for a struct; a field that holds a struct, slice or
  node becomes a child (a \<^verbatim>\<open>nil\<close> pointer or interface does not), any other field an
  attribute. The functions below build the nodes that the scenario programs need. Positions
  are 0 and the attributes that hold positions or literal values are left out: the analysis
  reads the attributes \<open>Name\<close> and \<open>Tok\<close> only.
\<close>

definition node :: "string \<Rightarrow> (string \<times> string) list \<Rightarrow> Ast list \<Rightarrow> Ast" where
  "node l kvs cs = Ast l 0 0 (map_of kvs) cs"

definition object :: "string \<Rightarrow> string \<Rightarrow> Ast" where
  "object kind name =
     node (''Obj : *ast.Object (Kind: '' @ kind @ '', Name: '' @ name @ '')'')
          [(''Kind'', kind), (''Name'', name)] []"

text \<open>
  An identifier that the parser resolved to a declaration of the file (a parameter, a local
  or package variable) carries its object as a child; one it left unresolved has no child.
\<close>

definition ident :: "string \<Rightarrow> string \<Rightarrow> Ast" where
  "ident pfx name =
     node (pfx @ '' : *ast.Ident (Name: '' @ name @ '')'') [(''Name'', name)] [object ''var'' name]"

definition freeIdent :: "string \<Rightarrow> string \<Rightarrow> Ast" where
  "freeIdent pfx name = node (pfx @ '' : *ast.Ident (Name: '' @ name @ '')'') [(''Name'', name)] []"

text \<open>An identifier that names a function of the file carries a function object.\<close>

definition funcIdent :: "string \<Rightarrow> string \<Rightarrow> Ast" where
  "funcIdent pfx name =
     node (pfx @ '' : *ast.Ident (Name: '' @ name @ '')'') [(''Name'', name)] [object ''func'' name]"

definition funcName :: "string \<Rightarrow> Ast" where
  "funcName name = funcIdent ''Name'' name"

definition param :: "string \<Rightarrow> string \<Rightarrow> string \<Rightarrow> Ast" where
  "param pfx name ty =
     node (pfx @ '' : *ast.Field'') []
       [node ''Names : []*ast.Ident(len = 1)'' [] [ident ''0'' name], freeIdent ''Type'' ty]"

definition funcType :: "string \<Rightarrow> Ast list \<Rightarrow> Ast" where
  "funcType len ps =
     node ''Type : *ast.FuncType'' []
       [node ''Params : *ast.FieldList'' []
          [node (''List : []*ast.Field(len = '' @ len @ '')'') [] ps]]"

definition stmtList :: "string \<Rightarrow> Ast list \<Rightarrow> Ast" where
  "stmtList len stmts = node (''List : []ast.Stmt(len = '' @ len @ '')'') [] stmts"

definition block :: "Ast \<Rightarrow> Ast" where
  "block l = node ''Body : *ast.BlockStmt'' [] [l]"

definition docComment :: Ast where
  "docComment =
     node ''Doc : *ast.CommentGroup'' []
       [node ''List : []*ast.Comment(len = 1)'' [] [node ''0 : *ast.Comment'' [] []]]"

definition exprs :: "string \<Rightarrow> string \<Rightarrow> Ast list \<Rightarrow> Ast" where
  "exprs pfx len es = node (pfx @ '' : []ast.Expr(len = '' @ len @ '')'') [] es"

definition assign :: "string \<Rightarrow> string \<Rightarrow> Ast \<Rightarrow> Ast \<Rightarrow> Ast" where
  "assign pfx tok lhs rhs =
     node (pfx @ '' : *ast.AssignStmt (Tok: '' @ tok @ '')'') [(''Tok'', tok)] [lhs, rhs]"

definition binary :: "string \<Rightarrow> string \<Rightarrow> Ast \<Rightarrow> Ast \<Rightarrow> Ast" where
  "binary pfx op x y = node (pfx @ '' : *ast.BinaryExpr (Op: '' @ op @ '')'') [(''Op'', op)] [x, y]"

definition basicLit :: "string \<Rightarrow> string \<Rightarrow> Ast" where
  "basicLit pfx kind =
     node (pfx @ '' : *ast.BasicLit (Kind: '' @ kind @ '')'') [(''Kind'', kind)] []"

definition selector :: "string \<Rightarrow> Ast \<Rightarrow> string \<Rightarrow> Ast" where
  "selector pfx x sel = node (pfx @ '' : *ast.SelectorExpr'') [] [x, freeIdent ''Sel'' sel]"

definition call :: "string \<Rightarrow> Ast \<Rightarrow> string \<Rightarrow> Ast list \<Rightarrow> Ast" where
  "call pfx fn len args = node (pfx @ '' : *ast.CallExpr'') [] [fn, exprs ''Args'' len args]"

definition ifStmt :: "string \<Rightarrow> Ast \<Rightarrow> Ast \<Rightarrow> Ast" where
  "ifStmt pfx c body = node (pfx @ '' : *ast.IfStmt'') [] [c, body]"

definition incDec :: "string \<Rightarrow> string \<Rightarrow> Ast \<Rightarrow> Ast" where
  "incDec pfx tok x = node (pfx @ '' : *ast.IncDecStmt (Tok: '' @ tok @ '')'') [(''Tok'', tok)] [x]"

definition returnStmt :: "string \<Rightarrow> Ast list \<Rightarrow> Ast" where
  "returnStmt pfx rs = node (pfx @ '' : *ast.ReturnStmt'') [] [exprs ''Results'' ''1'' rs]"

definition exprStmt :: "string \<Rightarrow> Ast \<Rightarrow> Ast" where
  "exprStmt pfx x = node (pfx @ '' : *ast.ExprStmt'') [] [x]"

definition decls :: "string \<Rightarrow> Ast list \<Rightarrow> Ast" where
  "decls len ds = node (''Decls : []ast.Decl(len = '' @ len @ '')'') [] ds"

text \<open>
  A function with a doc comment and no receiver: the declaration has the four children
  \<open>Doc\<close>, \<open>Name\<close>, \<open>Type\<close>, \<open>Body\<close>, which is the shape phase 1 indexes
  (\<^verbatim>\<open>Children[2]\<close> the type, \<^verbatim>\<open>Children[3]\<close> the body). Without the comment the
  declaration has the three children \<open>Name\<close>, \<open>Type\<close>, \<open>Body\<close>; phase 2 indexes from the
  end and takes both shapes.
\<close>

definition documentedFunc :: "string \<Rightarrow> string \<Rightarrow> Ast \<Rightarrow> Ast \<Rightarrow> Ast" where
  "documentedFunc pfx name ty body =
     node (pfx @ '' : *ast.FuncDecl (Name: '' @ name @ '')'') []
       [docComment, funcName name, ty, block body]"

definition plainFunc :: "string \<Rightarrow> string \<Rightarrow> Ast \<Rightarrow> Ast \<Rightarrow> Ast" where
  "plainFunc pfx name ty body =
     node (pfx @ '' : *ast.FuncDecl (Name: '' @ name @ '')'') [] [funcName name, ty, block body]"

subsection \<open>\<^verbatim>\<open>// f ...\<close> \<^verbatim>\<open>func f(a int, b int) { x := a + 1; b = x }\<close>\<close>

definition fDeclare :: Ast where
  "fDeclare =
     assign ''0'' '':='' (exprs ''Lhs'' ''1'' [ident ''0'' ''x''])
       (exprs ''Rhs'' ''1'' [binary ''0'' ''+'' (ident ''X'' ''a'') (basicLit ''Y'' ''INT'')])"

definition fAssign :: Ast where
  "fAssign =
     assign ''1'' ''='' (exprs ''Lhs'' ''1'' [ident ''0'' ''b'']) (exprs ''Rhs'' ''1'' [ident ''0'' ''x''])"

definition fBody :: Ast where
  "fBody = stmtList ''2'' [fDeclare, fAssign]"


text \<open>The same function without the doc comment.\<close>

definition fPlain :: Ast where
  "fPlain =
     plainFunc ''0'' ''f'' (funcType ''2'' [param ''0'' ''a'' ''int'', param ''1'' ''b'' ''int'']) fBody"

subsection \<open>\<^verbatim>\<open>// k ...\<close> \<^verbatim>\<open>func k(a int, b int) { b = 1 }\<close>\<close>

definition kAssign :: Ast where
  "kAssign =
     assign ''0'' ''='' (exprs ''Lhs'' ''1'' [ident ''0'' ''b'']) (exprs ''Rhs'' ''1'' [basicLit ''0'' ''INT''])"

subsection \<open>\<^verbatim>\<open>// g ...\<close> \<^verbatim>\<open>func g(other bool, i int) { if other { }; i++ }\<close>\<close>

definition gInc :: Ast where
  "gInc = incDec ''1'' ''++'' (ident ''X'' ''i'')"

definition gBody :: Ast where
  "gBody = stmtList ''2'' [ifStmt ''0'' (ident ''Cond'' ''other'') (block (stmtList ''0'' [])), gInc]"

definition gDecl :: Ast where
  "gDecl =
     documentedFunc ''0'' ''g''
       (funcType ''2'' [param ''0'' ''other'' ''bool'', param ''1'' ''i'' ''int'']) gBody"

subsection \<open>\<^verbatim>\<open>// h ...\<close> \<^verbatim>\<open>func h(c bool, i int) { if c { i++ } }\<close>\<close>

definition hInc :: Ast where
  "hInc = incDec ''0'' ''++'' (ident ''X'' ''i'')"

definition hInner :: Ast where
  "hInner = stmtList ''1'' [hInc]"

definition hBody :: Ast where
  "hBody = stmtList ''1'' [ifStmt ''0'' (ident ''Cond'' ''c'') (block hInner)]"

definition hDecl :: Ast where
  "hDecl =
     documentedFunc ''0'' ''h'' (funcType ''2'' [param ''0'' ''c'' ''bool'', param ''1'' ''i'' ''int'']) hBody"

subsection \<open>\<^verbatim>\<open>func loadAccount(id string) { v := stub.GetState(id); return v }\<close>\<close>

definition loadBody :: Ast where
  "loadBody =
     stmtList ''2''
       [assign ''0'' '':='' (exprs ''Lhs'' ''1'' [ident ''0'' ''v''])
          (exprs ''Rhs'' ''1''
             [call ''0'' (selector ''Fun'' (freeIdent ''X'' ''stub'') ''GetState'') ''1''
                [ident ''0'' ''id'']]),
        returnStmt ''1'' [ident ''0'' ''v'']]"

definition loadDecl :: Ast where
  "loadDecl =
     plainFunc ''0'' ''loadAccount'' (funcType ''1'' [param ''0'' ''id'' ''string'']) loadBody"

definition loadProgram :: Ast where
  "loadProgram = decls ''1'' [loadDecl]"

subsection \<open>\<^verbatim>\<open>func saveAccount(account Account) { stub.PutState(account.Key, account.Bytes) }\<close>\<close>

definition putCall :: "string \<Rightarrow> Ast" where
  "putCall pfx =
     call pfx (selector ''Fun'' (freeIdent ''X'' ''stub'') ''PutState'') ''2''
       [selector ''0'' (ident ''X'' ''account'') ''Key'',
        selector ''1'' (ident ''X'' ''account'') ''Bytes'']"

definition saveBody :: Ast where
  "saveBody = stmtList ''1'' [exprStmt ''0'' (putCall ''X'')]"

definition saveDecl :: Ast where
  "saveDecl =
     plainFunc ''0'' ''saveAccount'' (funcType ''1'' [param ''0'' ''account'' ''Account'']) saveBody"

definition saveProgram :: Ast where
  "saveProgram = decls ''1'' [saveDecl]"

text \<open>The same function with the call on the right of an assignment: \<^verbatim>\<open>err := stub.PutState(...)\<close>.\<close>

definition saveAssignedBody :: Ast where
  "saveAssignedBody =
     stmtList ''1''
       [assign ''0'' '':='' (exprs ''Lhs'' ''1'' [ident ''0'' ''err'']) (exprs ''Rhs'' ''1'' [putCall ''0''])]"

subsection \<open>A function that calls itself\<close>

text \<open>
  \<^verbatim>\<open>var last string\<close>

  \<^verbatim>\<open>func resolve(key string) string {\<close>
  \<^verbatim>\<open>    last = resolve(key + "/")\<close>
  \<^verbatim>\<open>    data, err := stub.GetState(last)\<close>
  \<^verbatim>\<open>    if err != nil { return "" }\<close>
  \<^verbatim>\<open>    return string(data)\<close>
  \<^verbatim>\<open>}\<close>
\<close>

definition lastDecl :: Ast where
  "lastDecl =
     node ''0 : *ast.GenDecl (Tok: var)'' [(''Tok'', ''var'')]
       [node ''Specs : []ast.Spec(len = 1)'' []
          [node ''0 : *ast.ValueSpec'' []
             [node ''Names : []*ast.Ident(len = 1)'' [] [ident ''0'' ''last''],
              freeIdent ''Type'' ''string'',
              node ''Values : []ast.Expr(len = 0)'' [] []]]]"

definition resolveType :: Ast where
  "resolveType =
     node ''Type : *ast.FuncType'' []
       [node ''Params : *ast.FieldList'' []
          [node ''List : []*ast.Field(len = 1)'' [] [param ''0'' ''key'' ''string'']],
        node ''Results : *ast.FieldList'' []
          [node ''List : []*ast.Field(len = 1)'' []
             [node ''0 : *ast.Field'' []
                [node ''Names : []*ast.Ident(len = 0)'' [] [], freeIdent ''Type'' ''string'']]]]"

definition resolveBody :: Ast where
  "resolveBody =
     stmtList ''4''
       [assign ''0'' ''='' (exprs ''Lhs'' ''1'' [ident ''0'' ''last''])
          (exprs ''Rhs'' ''1''
             [call ''0'' (funcIdent ''Fun'' ''resolve'') ''1''
                [binary ''0'' ''+'' (ident ''X'' ''key'') (basicLit ''Y'' ''STRING'')]]),
        assign ''1'' '':='' (exprs ''Lhs'' ''2'' [ident ''0'' ''data'', ident ''1'' ''err''])
          (exprs ''Rhs'' ''1''
             [call ''0'' (selector ''Fun'' (freeIdent ''X'' ''stub'') ''GetState'') ''1''
                [ident ''0'' ''last'']]),
        ifStmt ''2'' (binary ''Cond'' ''!='' (ident ''X'' ''err'') (freeIdent ''Y'' ''nil''))
          (block (stmtList ''1'' [returnStmt ''0'' [basicLit ''0'' ''STRING'']])),
        returnStmt ''3'' [call ''0'' (freeIdent ''Fun'' ''string'') ''1'' [ident ''0'' ''data'']]]"

definition resolveDecl :: Ast where
  "resolveDecl = plainFunc ''1'' ''resolve'' resolveType resolveBody"

definition resolveProgram :: Ast where
  "resolveProgram = decls ''2'' [lastDecl, resolveDecl]"

text \<open>The two values between which the read positions of \<open>resolve\<close> alternate.\<close>

definition resolveReads :: position_map where
  "resolveReads = [''resolve'' \<mapsto> [0]]"

definition resolveNothing :: position_map where
  "resolveNothing = [''resolve'' \<mapsto> []]"

section \<open>The reassignment rule in the specification's words\<close>

text \<open>
  The specification's rule for a reassignment, written after its sentences and kept apart
  from the code: every top-level child of the right-hand side must pass, where a literal
  fails, an identifier or field access passes only when it equals a parameter or a declared
  label, and a call passes only when each of its argument nodes does.
\<close>

definition spec_rhsChildPasses :: "Ast list \<Rightarrow> Ast list \<Rightarrow> Ast \<Rightarrow> bool" where
  "spec_rhsChildPasses params declaredLabels c =
     (if Contains (Label c) ''BasicLit'' then False
      else if Contains (Label c) ''*ast.Ident'' \<or> Contains (Label c) ''*ast.SelectorExpr''
        then matchesLocal c params declaredLabels
      else if Contains (Label c) ''CallExpr''
        then (case child c 1 of
                None \<Rightarrow> True
              | Some al \<Rightarrow> list_all (\<lambda>z. matchesLocal z params declaredLabels) (Children al))
      else True)"

definition spec_isCandidate :: "Ast list \<Rightarrow> Ast list \<Rightarrow> Ast list \<Rightarrow> Ast \<Rightarrow> bool" where
  "spec_isCandidate params condLabels declaredLabels s =
     (case child s 0 of
        None \<Rightarrow> False
      | Some lhs \<Rightarrow>
         (case child s 1 of
            None \<Rightarrow> False
          | Some rhs \<Rightarrow>
             \<not> list_ex (\<lambda>t. list_ex (\<lambda>e. astNodeEqual t e) condLabels) (Children lhs)
             \<and> list_all (spec_rhsChildPasses params declaredLabels) (Children rhs)))"

section \<open>Evaluation of the scenario trees\<close>

lemmas tree_defs =
  node_def object_def ident_def freeIdent_def funcIdent_def funcName_def param_def funcType_def stmtList_def
  block_def docComment_def exprs_def assign_def binary_def basicLit_def selector_def call_def
  ifStmt_def incDec_def returnStmt_def exprStmt_def decls_def documentedFunc_def plainFunc_def

lemmas phase1_defs =
  attr_def child_def isBasicLabel_def checkLabelsInAssignStatementLeftHandedSide_def
  matchesLocal_def checkLabelsInAssignStatementRightHandedSide_def expendKernel_def
  expendKernels_def scanStep_def scanStart_def argumentOfField_def declArguments_def
  declBody_def analyzeDecl_def

lemmas phase2_defs =
  attr_def child_def childFromEnd_def isBasicLabel_def callPositions_def trackedArgument_def
  findGetOrPutStateList_def argumentOfField_def apiArguments_def apiName_def apiBody_def
  apiStep_def

section \<open>Structural equivalence\<close>

lemma astNodeEqualLoop_nth:
  "length xs = length ys \<Longrightarrow>
   astNodeEqualLoop xs ys = (\<forall>i < length xs. astNodeEqual (xs ! i) (ys ! i))"
proof (induction xs ys rule: list_induct2)
  case Nil
  show ?case by simp
next
  case (Cons x xs y ys)
  then show ?case by (auto simp: less_Suc_eq_0_disj)
qed

lemma astNodeEqualLoop_refl: "(\<forall>c\<in>set cs. astNodeEqual c c) \<Longrightarrow> astNodeEqualLoop cs cs"
  by (induction cs) auto

lemma astNodeEqual_refl: "astNodeEqual x x"
  by (induction x) (auto simp: astNodeEqualLoop_refl)

text \<open>
  Claim C3. Two nodes whose labels both bear \<open>Name\<close> are equal exactly when their \<open>Name\<close>
  attributes are the same string, so two such nodes with different names are never equal;
  any other pair is equal exactly when both have the same number of children and the
  children are equal pairwise, position by position. A node bears a name, for the code,
  when its label contains \<open>Name\<close>: every identifier built by \<open>BuildAst\<close> does.
\<close>

theorem astNodeEqual_characterised:
  "(Contains (Label a) ''Name'' \<and> Contains (Label b) ''Name'' \<longrightarrow>
      (astNodeEqual a b \<longleftrightarrow> attr a ''Name'' = attr b ''Name''))
   \<and> (\<not> (Contains (Label a) ''Name'' \<and> Contains (Label b) ''Name'') \<longrightarrow>
      (astNodeEqual a b \<longleftrightarrow>
         length (Children a) = length (Children b)
         \<and> (\<forall>i < length (Children a). astNodeEqual (Children a ! i) (Children b ! i))))"
  by (cases a; cases b) (auto simp: attr_def astNodeEqualLoop_nth)

theorem astNodeEqual_characterised_witness:
  "astNodeEqual (ident ''0'' ''x'') (ident ''X'' ''x'')
   \<and> \<not> astNodeEqual (ident ''0'' ''x'') (ident ''0'' ''y'')
   \<and> astNodeEqual (selector ''0'' (ident ''X'' ''account'') ''Key'')
                  (selector ''1'' (ident ''X'' ''account'') ''Key'')
   \<and> \<not> astNodeEqual (selector ''0'' (ident ''X'' ''account'') ''Key'')
                    (selector ''0'' (ident ''X'' ''owner'') ''Key'')"
proof -
  have n: "Contains (Label (ident ''0'' ''x'')) ''Name''" "Contains (Label (ident ''X'' ''x'')) ''Name''"
    "Contains (Label (ident ''0'' ''y'')) ''Name''"
    by (simp_all add: tree_defs)
  have s: "\<not> Contains (Label (selector ''0'' (ident ''X'' ''account'') ''Key'')) ''Name''"
    by (simp add: tree_defs)
  have a: "astNodeEqual (ident ''0'' ''x'') (ident ''X'' ''x'')"
    using astNodeEqual_characterised[of "ident ''0'' ''x''" "ident ''X'' ''x''"] n
    by (simp add: tree_defs attr_def)
  have b: "\<not> astNodeEqual (ident ''0'' ''x'') (ident ''0'' ''y'')"
    using astNodeEqual_characterised[of "ident ''0'' ''x''" "ident ''0'' ''y''"] n
    by (simp add: tree_defs attr_def)
  have c: "astNodeEqual (selector ''0'' (ident ''X'' ''account'') ''Key'')
                        (selector ''1'' (ident ''X'' ''account'') ''Key'')"
    using astNodeEqual_characterised[of "selector ''0'' (ident ''X'' ''account'') ''Key''"
        "selector ''1'' (ident ''X'' ''account'') ''Key''"] s
    by (simp add: tree_defs less_Suc_eq_0_disj)
  have d: "\<not> astNodeEqual (selector ''0'' (ident ''X'' ''account'') ''Key'')
                          (selector ''0'' (ident ''X'' ''owner'') ''Key'')"
    using astNodeEqual_characterised[of "selector ''0'' (ident ''X'' ''account'') ''Key''"
        "selector ''0'' (ident ''X'' ''owner'') ''Key''"] s
    by (simp add: tree_defs less_Suc_eq_0_disj)
  from a b c d show ?thesis by blast
qed

text \<open>
  Claim C4. The claim says that no two equal entries are left after \<open>trimList\<close>. On a list
  of three equal labels \<open>trimList\<close> leaves two of them: the inner loop removes the second
  entry and ends, because the removed element has no successor any more, and the outer loop
  then moves to the third entry, which has nothing after it.
\<close>

theorem trimList_keeps_duplicate: "trimList [x, x, x] = [x, x] \<and> astNodeEqual x x"
  by (simp add: astNodeEqual_refl)

section \<open>Candidate detection\<close>

lemma scanStep_pos:
  "scanStep args s st = Some st' \<Longrightarrow> pos st' = pos st \<or> pos st' = pos st @ [s]"
  by (auto simp: scanStep_def split: if_splits option.splits list.splits)

lemma scanLoop_subseq:
  "scanLoop args ss st = Some st' \<Longrightarrow> \<exists>ys. pos st' = pos st @ ys \<and> subseq ys ss"
proof (induction ss arbitrary: st)
  case Nil
  then show ?case by simp
next
  case (Cons s ss)
  then obtain st1 where s1: "scanStep args s st = Some st1" and l: "scanLoop args ss st1 = Some st'"
    by (auto split: option.splits)
  from Cons.IH[OF l] obtain ys where ys: "pos st' = pos st1 @ ys" "subseq ys ss" by blast
  from scanStep_pos[OF s1] show ?case
  proof
    assume "pos st1 = pos st"
    with ys show ?thesis by (auto intro: subseq_Cons')
  next
    assume "pos st1 = pos st @ [s]"
    with ys have "pos st' = pos st @ (s # ys)" "subseq (s # ys) (s # ss)" by auto
    then show ?thesis by blast
  qed
qed

lemma checkRightLoop_no_call:
  "\<forall>c\<in>set cs. \<not> Contains (Label c) ''CallExpr'' \<Longrightarrow>
   checkRightLoop cs args labels =
     Some (\<not> (\<exists>c\<in>set cs. Contains (Label c) ''BasicLit''
                \<or> (Contains (Label c) ''*ast.Ident'' \<and> matchesLocal c args labels)))"
  by (induction cs) auto

lemma fBody_kernels:
  "findExchangeableSentences fBody [ident ''0'' ''a'', ident ''0'' ''b''] = Some [fAssign]"
  by (simp add: fBody_def fDeclare_def fAssign_def tree_defs phase1_defs)

lemma hDecl_arguments: "declArguments hDecl = Some [ident ''0'' ''c'', ident ''0'' ''i'']"
  by (simp add: hDecl_def hBody_def hInner_def hInc_def tree_defs phase1_defs)

lemma hDecl_kernels:
  "findExchangeableSentences hDecl [ident ''0'' ''c'', ident ''0'' ''i''] = Some []"
  by (simp add: hDecl_def hBody_def hInner_def hInc_def tree_defs phase1_defs)

text \<open>
  Claim C1, as stated, fails. In \<^verbatim>\<open>func k(a int, b int) { b = 1 }\<close> the right-hand side of
  \<^verbatim>\<open>b = 1\<close> is a literal, which by the claim disqualifies the statement; the check returns
  \<open>false\<close> at the literal and the scan reports the statement.
\<close>

theorem literal_reassignment_is_candidate:
  "scanStep [ident ''0'' ''a'', ident ''0'' ''b''] kAssign scanStart
     = Some (scanStart\<lparr>pos := [kAssign]\<rparr>)
   \<and> \<not> spec_isCandidate [ident ''0'' ''a'', ident ''0'' ''b''] [] [] kAssign"
  by (simp add: kAssign_def tree_defs phase1_defs spec_isCandidate_def spec_rhsChildPasses_def)

text \<open>
  Claim C1, amended. Take a statement that the scan treats as a reassignment (its label
  bears \<open>AssignStmt\<close> and neither \<open>IfStmt\<close> nor \<open>IncDecStmt\<close>, its token is not \<open>:=\<close>), with
  both sides present and no call expression among the top-level children of the right-hand
  side. The scan reports it exactly when (a) no left-hand child equals a condition label
  collected so far and (b) some top-level child of the right-hand side is a literal, or is
  an identifier equal to a parameter of the function or to a label declared so far with
  \<open>:=\<close>. Nothing else changes in the state of the scan.
\<close>

theorem reassignment_candidate:
  assumes "\<not> Contains (Label s) ''IfStmt''" and "\<not> Contains (Label s) ''IncDecStmt''"
    and "Contains (Label s) ''AssignStmt''" and "attr s ''Tok'' \<noteq> '':=''"
    and "child s 0 = Some lhs" and "child s 1 = Some rhs"
    and "\<forall>c\<in>set (Children rhs). \<not> Contains (Label c) ''CallExpr''"
  shows "scanStep args s st =
           Some (if (\<forall>t\<in>set (Children lhs). \<forall>e\<in>set (labelsInCondition st). \<not> astNodeEqual t e)
                    \<and> (\<exists>c\<in>set (Children rhs).
                          Contains (Label c) ''BasicLit''
                          \<or> (Contains (Label c) ''*ast.Ident''
                              \<and> matchesLocal c args (labelsInLeftHandedSide st)))
                 then st\<lparr>pos := pos st @ [s]\<rparr> else st)"
  using assms
  by (auto simp: scanStep_def checkLabelsInAssignStatementLeftHandedSide_def
      checkLabelsInAssignStatementRightHandedSide_def checkRightLoop_no_call list_ex_iff)

theorem reassignment_candidate_witness:
  "\<not> Contains (Label fAssign) ''IfStmt'' \<and> \<not> Contains (Label fAssign) ''IncDecStmt''
   \<and> Contains (Label fAssign) ''AssignStmt'' \<and> attr fAssign ''Tok'' \<noteq> '':=''
   \<and> child fAssign 0 = Some (exprs ''Lhs'' ''1'' [ident ''0'' ''b''])
   \<and> child fAssign 1 = Some (exprs ''Rhs'' ''1'' [ident ''0'' ''x''])
   \<and> list_all (\<lambda>c. \<not> Contains (Label c) ''CallExpr'')
         (Children (exprs ''Rhs'' ''1'' [ident ''0'' ''x'']))
   \<and> scanStep [ident ''0'' ''a'', ident ''0'' ''b''] fAssign
        \<lparr>labelsInCondition = [], labelsInLeftHandedSide = [ident ''0'' ''x''], pos = []\<rparr>
      = Some \<lparr>labelsInCondition = [], labelsInLeftHandedSide = [ident ''0'' ''x''],
              pos = [fAssign]\<rparr>"
proof -
  have h1: "\<not> Contains (Label fAssign) ''IfStmt''"
    and h2: "\<not> Contains (Label fAssign) ''IncDecStmt''"
    and h3: "Contains (Label fAssign) ''AssignStmt''"
    and h4: "attr fAssign ''Tok'' \<noteq> '':=''"
    and h5: "child fAssign 0 = Some (exprs ''Lhs'' ''1'' [ident ''0'' ''b''])"
    and h6: "child fAssign 1 = Some (exprs ''Rhs'' ''1'' [ident ''0'' ''x''])"
    by (simp_all add: fAssign_def assign_def node_def attr_def child_def)
  have h7: "\<forall>c\<in>set (Children (exprs ''Rhs'' ''1'' [ident ''0'' ''x''])).
              \<not> Contains (Label c) ''CallExpr''"
    by (simp add: tree_defs)
  have m: "matchesLocal (ident ''0'' ''x'') [ident ''0'' ''a'', ident ''0'' ''b''] [ident ''0'' ''x'']"
    by (simp add: matchesLocal_def tree_defs)
  have i: "Contains (Label (ident ''0'' ''x'')) ''*ast.Ident''"
    by (simp add: tree_defs)
  have c: "Children (exprs ''Rhs'' ''1'' [ident ''0'' ''x'']) = [ident ''0'' ''x'']"
    by (simp add: exprs_def node_def)
  show ?thesis
    using reassignment_candidate[OF h1 h2 h3 h4 h5 h6 h7,
        of "[ident ''0'' ''a'', ident ''0'' ''b'']"
           "\<lparr>labelsInCondition = [], labelsInLeftHandedSide = [ident ''0'' ''x''], pos = []\<rparr>"]
      h1 h2 h3 h4 h5 h6 h7 m i c
    by (simp add: list_all_iff)
qed

text \<open>
  Claim C5, as stated, fails. In \<^verbatim>\<open>func h(c bool, i int) { if c { i++ } }\<close> the body of the
  \<open>if\<close> is a statement list of its own, and scanned by itself it yields \<^verbatim>\<open>i++\<close>; the scan of
  the function yields nothing, because the scan of a statement list does not descend into
  its statements.
\<close>

theorem nested_scope_not_scanned:
  "findExchangeableSentences hDecl [ident ''0'' ''c'', ident ''0'' ''i''] = Some []
   \<and> findExchangeableSentences hInner [ident ''0'' ''c'', ident ''0'' ''i''] = Some [hInc]"
  by (simp add: hDecl_kernels) (simp add: hInner_def hInc_def tree_defs phase1_defs)

text \<open>
  Claim C5, amended. On a statement list the candidates that the detector returns are a
  subsequence of the direct children of that list, in their order: detection stays at the
  top level of the list, and statements inside the body of an \<open>if\<close>, loop or switch are
  never returned as candidates of their own.
\<close>

theorem candidates_top_level:
  "Contains (Label a) ''List : []ast.Stmt'' \<Longrightarrow> findExchangeableSentences a args = Some ps \<Longrightarrow>
   subseq ps (Children a)"
  by (cases a) (auto simp: scanStart_def dest!: scanLoop_subseq)

theorem candidates_top_level_witness:
  "Contains (Label fBody) ''List : []ast.Stmt''
   \<and> findExchangeableSentences fBody [ident ''0'' ''a'', ident ''0'' ''b''] = Some [fAssign]
   \<and> subseq [fAssign] (Children fBody)"
proof -
  have l: "Contains (Label fBody) ''List : []ast.Stmt''"
    by (simp add: fBody_def stmtList_def node_def)
  from candidates_top_level[OF l fBody_kernels] l fBody_kernels show ?thesis by blast
qed

text \<open>
  The rule for an increment or decrement: the scan reports the statement exactly when its
  target equals none of the condition labels collected so far.
\<close>

lemma incdec_candidate:
  assumes "\<not> Contains (Label s) ''IfStmt''" and "Contains (Label s) ''IncDecStmt''"
    and "child s 0 = Some t"
  shows "scanStep args s st =
           Some (if \<forall>e\<in>set (labelsInCondition st). \<not> astNodeEqual t e
                 then st\<lparr>pos := pos st @ [s]\<rparr> else st)"
  using assms by (auto simp: scanStep_def list_ex_iff split: list.splits)

text \<open>
  Claim C8. The detector does report \<^verbatim>\<open>i++\<close> in
  \<^verbatim>\<open>func g(other bool, i int) { if other { }; i++ }\<close>, but no chain comes out: the expansion
  reads \<^verbatim>\<open>Children[1]\<close> of the kernel, and an increment has the single child \<open>X\<close>, so
  phase 1 panics on this function instead of returning the chain \<open>[i++]\<close>.
\<close>

theorem incdec_kernel_panics:
  "findExchangeableSentences gDecl [ident ''0'' ''other'', ident ''0'' ''i''] = Some [gInc]
   \<and> child gInc 1 = None
   \<and> expendKernels gBody [gInc] = None
   \<and> analyzeFunctionDeclaration gDecl = None"
  by (simp add: gDecl_def gBody_def gInc_def tree_defs phase1_defs)


text \<open>
  The driver of phase 1 reads the type at \<^verbatim>\<open>Children[2]\<close> and the body at
  \<^verbatim>\<open>Children[3]\<close>. On the declaration without doc comment and receiver, which has three
  children, it takes the first statement's children for the parameter fields and then
  panics at \<^verbatim>\<open>Children[3]\<close>.
\<close>

lemma f_undocumented:
  "declArguments fPlain = Some [object ''var'' ''x'', ident ''X'' ''a'']
   \<and> analyzeFunctionDeclaration fPlain = None"
  by (simp add: fPlain_def fBody_def fDeclare_def fAssign_def tree_defs phase1_defs)

text \<open>
  Claim C10. A function declaration whose scan yields no kernel contributes no entry: the
  result of \<open>analyzeFunctionDeclaration\<close> on it is the empty list, not a list holding an
  empty chain.
\<close>

theorem no_kernels_no_entry:
  "Contains (Label a) ''FuncDecl'' \<Longrightarrow> declArguments a = Some args \<Longrightarrow>
   findExchangeableSentences a args = Some [] \<Longrightarrow> analyzeFunctionDeclaration a = Some []"
  by (cases a) (simp add: analyzeDecl_def)

theorem no_kernels_no_entry_witness:
  "Contains (Label hDecl) ''FuncDecl''
   \<and> declArguments hDecl = Some [ident ''0'' ''c'', ident ''0'' ''i'']
   \<and> findExchangeableSentences hDecl [ident ''0'' ''c'', ident ''0'' ''i''] = Some []
   \<and> analyzeFunctionDeclaration hDecl = Some []"
proof -
  have l: "Contains (Label hDecl) ''FuncDecl''"
    by (simp add: hDecl_def documentedFunc_def node_def)
  from no_kernels_no_entry[OF l hDecl_arguments hDecl_kernels] l hDecl_arguments hDecl_kernels
  show ?thesis by blast
qed

section \<open>Ledger positions\<close>

lemma resolve_sweep_first:
  "apiSweep (Children resolveProgram)
       \<lparr>GetStateMap = Map.empty, PutStateMap = Map.empty, flag = False\<rparr>
     = Some \<lparr>GetStateMap = resolveReads, PutStateMap = resolveNothing, flag = True\<rparr>"
  by (simp add: resolveReads_def resolveNothing_def resolveProgram_def resolveDecl_def
      resolveBody_def resolveType_def lastDecl_def tree_defs phase2_defs)

lemma resolve_sweep_shrinks:
  "apiSweep (Children resolveProgram)
       \<lparr>GetStateMap = resolveReads, PutStateMap = resolveNothing, flag = False\<rparr>
     = Some \<lparr>GetStateMap = resolveNothing, PutStateMap = resolveNothing, flag = True\<rparr>"
  by (simp add: resolveReads_def resolveNothing_def resolveProgram_def resolveDecl_def
      resolveBody_def resolveType_def lastDecl_def tree_defs phase2_defs)

lemma resolve_sweep_grows:
  "apiSweep (Children resolveProgram)
       \<lparr>GetStateMap = resolveNothing, PutStateMap = resolveNothing, flag = False\<rparr>
     = Some \<lparr>GetStateMap = resolveReads, PutStateMap = resolveNothing, flag = True\<rparr>"
  by (simp add: resolveReads_def resolveNothing_def resolveProgram_def resolveDecl_def
      resolveBody_def resolveType_def lastDecl_def tree_defs phase2_defs)

lemma resolve_cycle:
  "analyzeSweeps n resolveProgram resolveReads resolveNothing = None
   \<and> analyzeSweeps n resolveProgram resolveNothing resolveNothing = None"
  by (induction n) (simp_all add: resolve_sweep_shrinks resolve_sweep_grows)

text \<open>
  Claim C2. On the program with the self-calling function \<open>resolve\<close> the loop never ends:
  whatever the number of sweeps allowed, it has not returned. The first sweep records
  position 0 as reaching \<open>GetState\<close>; the second, which now sees the call
  \<^verbatim>\<open>resolve(key + "/")\<close> as a tracked call and no longer as an assignment to \<open>last\<close>, records
  no position, so the set shrinks; the third records position 0 again; and so on.
\<close>

theorem resolve_never_stable:
  "analyzeReadWriteAPI n resolveProgram = None
   \<and> apiSweep (Children resolveProgram)
         \<lparr>GetStateMap = resolveReads, PutStateMap = resolveNothing, flag = False\<rparr>
       = Some \<lparr>GetStateMap = resolveNothing, PutStateMap = resolveNothing, flag = True\<rparr>
   \<and> resolveReads ''resolve'' = Some [0] \<and> resolveNothing ''resolve'' = Some []"
proof -
  have "analyzeReadWriteAPI n resolveProgram = None"
    by (cases n) (simp_all add: analyzeReadWriteAPI_def resolve_sweep_first resolve_cycle)
  moreover have "resolveReads ''resolve'' = Some [0]" "resolveNothing ''resolve'' = Some []"
    by (simp_all add: resolveReads_def resolveNothing_def)
  ultimately show ?thesis using resolve_sweep_shrinks by blast
qed

text \<open>
  Claim C6. On \<^verbatim>\<open>func saveAccount(account Account) { stub.PutState(account.Key, account.Bytes) }\<close>
  the search for \<open>PutState\<close> finds position 0 in the expression statement and then reads the
  tracked node at \<^verbatim>\<open>Children[len-1].Children[0].Children[1].Children[0]\<close>, a path made for a
  call on the right of an assignment or in a \<open>return\<close>. From an expression statement it
  leads to the selector's \<open>Sel\<close> identifier, which has no child: phase 2 panics and returns
  no set for \<open>saveAccount\<close>. With the same call on the right of an assignment the result
  is position 0.
\<close>

theorem saveAccount_panics:
  "findGetOrPutStateList saveBody m [ident ''0'' ''account''] False = None
   \<and> analyzeReadWriteAPI (Suc n) saveProgram = Some None
   \<and> findGetOrPutStateList saveAssignedBody m [ident ''0'' ''account''] False = Some [0]"
  by (simp add: analyzeReadWriteAPI_def saveProgram_def saveDecl_def saveBody_def
      saveAssignedBody_def putCall_def tree_defs phase2_defs)

text \<open>
  Claim C7. On \<^verbatim>\<open>func loadAccount(id string) { v := stub.GetState(id); return v }\<close> the
  search for \<open>GetState\<close> returns position 0 whatever the map of the other functions holds,
  and phase 2 on the program ends after two sweeps, whatever fuel is left, with position 0
  as the \<open>GetState\<close> set of \<open>loadAccount\<close> (and the empty \<open>PutState\<close> set).
\<close>

theorem loadAccount_reads_0:
  "findGetOrPutStateList loadBody m [ident ''0'' ''id''] True = Some [0]
   \<and> analyzeReadWriteAPI (Suc (Suc n)) loadProgram
       = Some (Some ([''loadAccount'' \<mapsto> [0]], [''loadAccount'' \<mapsto> []]))"
  by (simp add: analyzeReadWriteAPI_def loadProgram_def loadDecl_def loadBody_def tree_defs
      phase2_defs)

end
